theory Spec2Isabelle
  imports Main
begin

section \<open>JavaScript values handled by \<open>src/App.js\<close>\<close>

text \<open>
  The bodies of the server's answers reach the component as \<open>response.data\<close>, which is
  whatever value the transport library parsed from the body.  The model keeps that value
  untyped, as the code does: the handlers read properties off it without checking its
  shape.  An object is the list of its properties, each name once.  Numbers are
  integers here (no handler computes with a number of a body).
\<close>

datatype jsval =
    JUndefined
  | JNull
  | JBool bool
  | JNum int
  | JStr string
  | JArr "jsval list"
  | JObj "(string \<times> jsval) list"

datatype js_error = TypeError | RequestFailed

text \<open>The result of an awaited request: the promise is rejected (transport error, or a
  status outside 2xx), or it is fulfilled with a response whose \<open>data\<close> is the parsed body.\<close>

datatype outcome = Rejected | Resolved jsval

definition nullish :: "jsval \<Rightarrow> bool" where
  "nullish v = (v = JUndefined \<or> v = JNull)"

text \<open>Truthiness, as \<open>if (v)\<close>, \<open>v && ...\<close> and \<open>v || ...\<close> test it.\<close>

fun truthy :: "jsval \<Rightarrow> bool" where
  "truthy JUndefined = False"
| "truthy JNull = False"
| "truthy (JBool b) = b"
| "truthy (JNum n) = (n \<noteq> 0)"
| "truthy (JStr s) = (s \<noteq> [])"
| "truthy (JArr xs) = True"
| "truthy (JObj kvs) = True"

text \<open>
  A property read \<open>v.name\<close>, for the names the handlers read (\<open>response\<close>,
  \<open>timestamp\<close>, \<open>tools_used\<close>, \<open>history\<close>, \<open>content\<close>, \<open>role\<close>): it throws a
  TypeError on \<open>undefined\<close> and \<open>null\<close>, finds the entry of an object, and is
  \<open>undefined\<close> on everything else (none of these names is a property of a string, a
  number, a boolean or an array).
\<close>

fun get_prop :: "jsval \<Rightarrow> string \<Rightarrow> js_error + jsval" where
  "get_prop JUndefined name = Inl TypeError"
| "get_prop JNull name = Inl TypeError"
| "get_prop (JObj kvs) name = Inr (case map_of kvs name of None \<Rightarrow> JUndefined | Some v \<Rightarrow> v)"
| "get_prop v name = Inr JUndefined"

text \<open>\<open>a || b\<close>\<close>

definition js_or :: "jsval \<Rightarrow> jsval \<Rightarrow> jsval" where
  "js_or a b = (if truthy a then a else b)"

subsection \<open>Strings\<close>

text \<open>
  \<open>String.prototype.trim\<close> strips white space and line terminators from both ends.
  Strings are lists of 8-bit characters here, so the white space of the model is the
  part of ECMAScript's below 256: TAB, LF, VT, FF, CR, SP and NBSP.
\<close>

definition is_white_space :: "char \<Rightarrow> bool" where
  "is_white_space c = (of_char c \<in> {9, 10, 11, 12, 13, 32, 160 :: nat})"

definition trim :: "string \<Rightarrow> string" where
  "trim s = rev (dropWhile is_white_space (rev (dropWhile is_white_space s)))"

text \<open>A number in a template literal: decimal digits, with a sign when negative.\<close>

definition digit_char :: "nat \<Rightarrow> char" where
  "digit_char d = char_of (48 + d)"

fun digits :: "nat \<Rightarrow> string" where
  "digits n = (if n < 10 then [digit_char n] else digits (n div 10) @ [digit_char (n mod 10)])"

declare digits.simps [simp del]

definition number_to_string :: "int \<Rightarrow> string" where
  "number_to_string i = (if i < 0 then CHR ''-'' # digits (nat (- i)) else digits (nat i))"

subsection \<open>Dates\<close>

text \<open>
  \<open>new Date()\<close> is the clock's reading (milliseconds since the epoch, what
  \<open>Date.now()\<close> returns); \<open>new Date(v)\<close> is the date the runtime builds from \<open>v\<close>.
  How the runtime parses \<open>v\<close> is not unfolded: the date is kept as the value it was
  built from.
\<close>

datatype jsdate = Date_now int | Date_of jsval

section \<open>The component's state\<close>

text \<open>
  One entry of the thread.  The object literals of the source carry \<open>toolsUsed\<close> and
  \<open>isError\<close> only in some places: an absent property is \<open>None\<close>.  The field \<open>text\<close> of
  the source is \<open>text'\<close> here.
\<close>

record message =
  text' :: jsval
  sender :: string
  timestamp :: jsdate
  toolsUsed :: "jsval option"
  isError :: "bool option"


text \<open>
  The requests of the component: \<open>GET /api/history/{sid}\<close>, \<open>POST /api/chat\<close> with body
  \<open>{message, session_id}\<close>, and \<open>DELETE /api/session/{sid}\<close>.
\<close>

datatype request =
    HistoryReq string
  | ChatReq string string
  | DeleteReq string

text \<open>
  The four \<open>useState\<close> cells, the \<open>sessionId\<close> slot of \<open>localStorage\<close> (\<open>None\<close> when
  \<open>getItem\<close> returns \<open>null\<close>), and the requests that were issued and are still awaited.
\<close>

record app_state =
  messages :: "message list"
  input :: string
  isLoading :: bool
  sessionId :: string
  localStorage :: "string option"
  pending :: "request list"

definition newSessionId :: "int \<Rightarrow> string" where
  "newSessionId now = ''session_'' @ number_to_string now"

section \<open>The handlers\<close>

text \<open>
  An \<open>async\<close> handler is two functions: the part that runs when it is called, up to
  its \<open>await\<close>, and the part that runs when the awaited request is settled, which takes
  the request's outcome and the state of that moment.  The state setters with an updater
  (\<open>setMessages(prev => ...)\<close>) act on the state of the moment they run in.
\<close>

subsection \<open>\<open>loadHistory\<close>\<close>

definition loadHistory :: "string \<Rightarrow> app_state \<Rightarrow> app_state" where
  "loadHistory sid s = s\<lparr>pending := pending s @ [HistoryReq sid]\<rparr>"

text \<open>The arrow function given to \<open>map\<close>; its first property read throws on a
  \<open>null\<close> entry.\<close>

definition history_entry :: "jsval \<Rightarrow> js_error + message" where
  "history_entry msg =
     (case get_prop msg ''content'' of
        Inl e \<Rightarrow> Inl e
      | Inr content \<Rightarrow>
          (case get_prop msg ''role'' of
             Inl e \<Rightarrow> Inl e
           | Inr role \<Rightarrow>
               (case get_prop msg ''timestamp'' of
                  Inl e \<Rightarrow> Inl e
                | Inr ts \<Rightarrow>
                    Inr \<lparr>text' = content,
                         sender = (if role = JStr ''user'' then ''user'' else ''ai''),
                         timestamp = Date_of ts,
                         toolsUsed = None,
                         isError = None\<rparr>)))"

text \<open>\<open>xs.map(f)\<close> for a callback that may throw: the first exception ends the loop.\<close>

fun map_entries :: "jsval list \<Rightarrow> js_error + message list" where
  "map_entries [] = Inr []"
| "map_entries (x # xs) =
     (case history_entry x of
        Inl e \<Rightarrow> Inl e
      | Inr m \<Rightarrow> (case map_entries xs of Inl e \<Rightarrow> Inl e | Inr ms \<Rightarrow> Inr (m # ms)))"

text \<open>
  The body of the \<open>try\<close>, as the argument \<open>setMessages\<close> is called with, or \<open>None\<close>
  when \<open>setMessages\<close> is not reached: the guard \<open>history && history.length > 0\<close> is
  false, or an exception was thrown, which the \<open>catch\<close> only writes to the console.  A
  truthy \<open>history\<close> that is not an array never reaches \<open>setMessages\<close>: a number and a
  boolean have no \<open>length\<close>, and a string and an object have no \<open>map\<close> to call.
\<close>

definition hydrated :: "jsval \<Rightarrow> message list option" where
  "hydrated data =
     (case get_prop data ''history'' of
        Inl e \<Rightarrow> None
      | Inr history \<Rightarrow>
          if \<not> truthy history then None
          else (case history of
                  JArr xs \<Rightarrow>
                    if length xs > 0
                    then (case map_entries xs of Inl e \<Rightarrow> None | Inr ms \<Rightarrow> Some ms)
                    else None
                | _ \<Rightarrow> None))"

definition loadHistory_settled :: "outcome \<Rightarrow> app_state \<Rightarrow> app_state" where
  "loadHistory_settled out s =
     (case out of
        Rejected \<Rightarrow> s
      | Resolved data \<Rightarrow>
          (case hydrated data of None \<Rightarrow> s | Some ms \<Rightarrow> s\<lparr>messages := ms\<rparr>))"

subsection \<open>\<open>sendMessage\<close>\<close>

definition userMessage :: "int \<Rightarrow> string \<Rightarrow> message" where
  "userMessage now txt =
     \<lparr>text' = JStr txt, sender = ''user'', timestamp = Date_now now,
      toolsUsed = None, isError = None\<rparr>"

definition sendMessage :: "int \<Rightarrow> app_state \<Rightarrow> app_state" where
  "sendMessage now s =
     (if trim (input s) = [] then s
      else s\<lparr>messages := messages s @ [userMessage now (input s)],
             input := [],
             isLoading := True,
             pending := pending s @ [ChatReq (input s) (sessionId s)]\<rparr>)"

text \<open>The object \<open>aiMessage\<close> of the \<open>try\<close>; reading \<open>response.data.response\<close> throws
  when the body is \<open>null\<close> or missing.\<close>

definition aiMessage :: "jsval \<Rightarrow> js_error + message" where
  "aiMessage data =
     (case get_prop data ''response'' of
        Inl e \<Rightarrow> Inl e
      | Inr response \<Rightarrow>
          (case get_prop data ''timestamp'' of
             Inl e \<Rightarrow> Inl e
           | Inr ts \<Rightarrow>
               (case get_prop data ''tools_used'' of
                  Inl e \<Rightarrow> Inl e
                | Inr tools \<Rightarrow>
                    Inr \<lparr>text' = response,
                         sender = ''ai'',
                         timestamp = Date_of ts,
                         toolsUsed = Some (js_or tools (JArr [])),
                         isError = None\<rparr>)))"

definition errorMessage :: "int \<Rightarrow> message" where
  "errorMessage now =
     \<lparr>text' = JStr ''Sorry, I encountered an error. Please try again.'',
      sender = ''ai'', timestamp = Date_now now,
      toolsUsed = None, isError = Some True\<rparr>"

text \<open>The \<open>try\<close> after the \<open>await\<close>, its \<open>catch\<close> and its \<open>finally\<close>.\<close>

definition sendMessage_settled :: "int \<Rightarrow> outcome \<Rightarrow> app_state \<Rightarrow> app_state" where
  "sendMessage_settled now out s =
     (let reply = (case out of Rejected \<Rightarrow> Inl RequestFailed | Resolved data \<Rightarrow> aiMessage data);
          s' = (case reply of
                  Inr m \<Rightarrow> s\<lparr>messages := messages s @ [m]\<rparr>
                | Inl e \<Rightarrow> s\<lparr>messages := messages s @ [errorMessage now]\<rparr>)
      in s'\<lparr>isLoading := False\<rparr>)"

subsection \<open>\<open>clearChat\<close>\<close>

text \<open>\<open>confirmed\<close> is the answer to \<open>window.confirm\<close>.\<close>

definition clearChat :: "bool \<Rightarrow> app_state \<Rightarrow> app_state" where
  "clearChat confirmed s =
     (if confirmed then s\<lparr>pending := pending s @ [DeleteReq (sessionId s)]\<rparr> else s)"

definition clearChat_settled :: "int \<Rightarrow> outcome \<Rightarrow> app_state \<Rightarrow> app_state" where
  "clearChat_settled now out s =
     (case out of
        Rejected \<Rightarrow> s
      | Resolved data \<Rightarrow>
          s\<lparr>messages := [],
            localStorage := Some (newSessionId now),
            sessionId := newSessionId now\<rparr>)"

subsection \<open>The effect run on mount\<close>

definition mount :: "int \<Rightarrow> app_state \<Rightarrow> app_state" where
  "mount now s =
     (case localStorage s of
        None \<Rightarrow> s\<lparr>sessionId := newSessionId now, localStorage := Some (newSessionId now)\<rparr>
      | Some stored \<Rightarrow>
          if stored \<noteq> [] then loadHistory stored (s\<lparr>sessionId := stored\<rparr>)
          else s\<lparr>sessionId := newSessionId now, localStorage := Some (newSessionId now)\<rparr>)"

subsection \<open>The controls of the view\<close>

definition handleKeyPress :: "string \<Rightarrow> bool \<Rightarrow> int \<Rightarrow> app_state \<Rightarrow> app_state" where
  "handleKeyPress key shiftKey now s =
     (if key = ''Enter'' \<and> \<not> shiftKey then sendMessage now s else s)"

text \<open>The \<open>disabled\<close> attributes of the input field and of the Send button.\<close>

definition input_disabled :: "app_state \<Rightarrow> bool" where
  "input_disabled s = isLoading s"

definition send_disabled :: "app_state \<Rightarrow> bool" where
  "send_disabled s = (isLoading s \<or> trim (input s) = [])"

text \<open>
  What can happen to a mounted component: the user edits the input field
  (\<open>onChange\<close>), presses a key in it (\<open>onKeyPress\<close>, with the key, the shift state and
  the clock), clicks Send or Clear Chat (with the answer given to the confirmation), and
  an awaited request is settled (with its outcome and the clock).  A disabled control
  delivers no event, and only a request that is awaited can be settled.  The drawing of
  the thread is not part of the model: the events are those of a view that is drawn.
\<close>

datatype event =
    Change string
  | KeyPress string bool int
  | ClickSend int
  | ClickClear bool
  | Settle request outcome int

fun dispatch :: "event \<Rightarrow> app_state \<Rightarrow> app_state" where
  "dispatch (Change v) s = (if input_disabled s then s else s\<lparr>input := v\<rparr>)"
| "dispatch (KeyPress key shiftKey now) s =
     (if input_disabled s then s else handleKeyPress key shiftKey now s)"
| "dispatch (ClickSend now) s = (if send_disabled s then s else sendMessage now s)"
| "dispatch (ClickClear confirmed) s = clearChat confirmed s"
| "dispatch (Settle req out now) s =
     (if req \<in> set (pending s)
      then (let s' = s\<lparr>pending := remove1 req (pending s)\<rparr>
            in case req of
                 HistoryReq sid \<Rightarrow> loadHistory_settled out s'
               | ChatReq txt sid \<Rightarrow> sendMessage_settled now out s'
               | DeleteReq sid \<Rightarrow> clearChat_settled now out s')
      else s)"

text \<open>The state of the first render, for a given content of the storage slot, and the
  states the component goes through: the mount effect, then any events.\<close>

definition initial :: "string option \<Rightarrow> app_state" where
  "initial stored =
     \<lparr>messages = [], input = [], isLoading = False, sessionId = [],
      localStorage = stored, pending = []\<rparr>"

definition run :: "event list \<Rightarrow> app_state \<Rightarrow> app_state" where
  "run evs s = foldl (\<lambda>s e. dispatch e s) s evs"

definition started :: "string option \<Rightarrow> int \<Rightarrow> event list \<Rightarrow> app_state" where
  "started stored now evs = run evs (mount now (initial stored))"

fun is_chat :: "request \<Rightarrow> bool" where
  "is_chat (ChatReq txt sid) = True"
| "is_chat req = False"

text \<open>The chat exchanges that are being awaited.\<close>

definition sending :: "app_state \<Rightarrow> request list" where
  "sending s = filter is_chat (pending s)"

text \<open>
  What holds of every state the component goes through: while the busy flag is set the
  input field is empty, and the number of awaited chat exchanges is one when the flag is
  set and zero when it is not.
\<close>

definition busy_inv :: "app_state \<Rightarrow> bool" where
  "busy_inv s =
     ((isLoading s \<longrightarrow> input s = []) \<and> length (sending s) = (if isLoading s then 1 else 0))"

section \<open>The specification's reading of a response\<close>



section \<open>Example states and responses\<close>

definition idle_thread :: app_state where
  "idle_thread =
     \<lparr>messages = [userMessage 100 ''hi''],
      input = ''ping'', isLoading = False, sessionId = ''session_100'',
      localStorage = Some ''session_100'', pending = []\<rparr>"

definition busy_thread :: app_state where
  "busy_thread =
     \<lparr>messages = [userMessage 100 ''hi''],
      input = [], isLoading = True, sessionId = ''session_100'',
      localStorage = Some ''session_100'', pending = [ChatReq ''hi'' ''session_100'']\<rparr>"



section \<open>Properties\<close>

subsection \<open>Strings and session identifiers\<close>

lemma dropWhile_all_iff: "(\<forall>x \<in> set (dropWhile P xs). P x) \<longleftrightarrow> (\<forall>x \<in> set xs. P x)"
  by (induction xs) auto

lemma trim_empty_iff: "trim s = [] \<longleftrightarrow> (\<forall>c \<in> set s. is_white_space c)"
  by (simp add: trim_def dropWhile_all_iff)


lemma digits_nonempty: "digits n \<noteq> []"
  by (subst digits.simps) simp

lemma digit_char_inj: "a < 10 \<Longrightarrow> b < 10 \<Longrightarrow> digit_char a = digit_char b \<Longrightarrow> a = b"
  by (simp add: digit_char_def)

lemma digit_char_not_minus: "k < 10 \<Longrightarrow> digit_char k \<noteq> CHR ''-''"
proof
  assume k: "k < 10" and "digit_char k = CHR ''-''"
  then have "of_char (digit_char k) = (of_char (CHR ''-'') :: nat)" by simp
  with k show False by (simp add: digit_char_def)
qed

lemma digits_inj: "digits n = digits m \<Longrightarrow> n = m"
proof (induction n arbitrary: m rule: digits.induct)
  case (1 n)
  show ?case
  proof (cases "n < 10")
    case True
    show ?thesis
    proof (cases "m < 10")
      case mt: True
      from "1.prems" True mt have "digit_char n = digit_char m"
        by (simp add: digits.simps[of n] digits.simps[of m])
      with True mt show ?thesis by (rule_tac digit_char_inj)
    next
      case False
      with "1.prems" True have "[digit_char n] = digits (m div 10) @ [digit_char (m mod 10)]"
        by (simp add: digits.simps[of n] digits.simps[of m])
      then have "digits (m div 10) = []" by simp
      then show ?thesis by (simp add: digits_nonempty)
    qed
  next
    case False
    show ?thesis
    proof (cases "m < 10")
      case True
      with "1.prems" False have "digits (n div 10) @ [digit_char (n mod 10)] = [digit_char m]"
        by (simp add: digits.simps[of n] digits.simps[of m])
      then have "digits (n div 10) = []" by simp
      then show ?thesis by (simp add: digits_nonempty)
    next
      case mf: False
      with "1.prems" False
      have eq: "digits (n div 10) @ [digit_char (n mod 10)] = digits (m div 10) @ [digit_char (m mod 10)]"
        by (simp add: digits.simps[of n] digits.simps[of m])
      then have a: "digits (n div 10) = digits (m div 10)" and b: "digit_char (n mod 10) = digit_char (m mod 10)"
        by simp_all
      from "1.IH"[OF False a] have "n div 10 = m div 10" .
      moreover from b have "n mod 10 = m mod 10" by (intro digit_char_inj) simp_all
      ultimately show ?thesis by (metis div_mult_mod_eq)
    qed
  qed
qed

lemma digits_no_minus: "CHR ''-'' \<notin> set (digits n)"
proof (induction n rule: digits.induct)
  case (1 n)
  show ?case
  proof (cases "n < 10")
    case True
    then show ?thesis using digit_char_not_minus[of n] by (simp add: digits.simps[of n])
  next
    case False
    then show ?thesis using "1.IH" digit_char_not_minus[of "n mod 10"]
      by (simp add: digits.simps[of n])
  qed
qed

lemma number_to_string_inj: "number_to_string a = number_to_string b \<Longrightarrow> a = b"
proof -
  assume eq: "number_to_string a = number_to_string b"
  have hd: "\<And>n. hd (digits n) \<noteq> CHR ''-''"
    using digits_no_minus digits_nonempty by (metis hd_in_set)
  show ?thesis
  proof (cases "a < 0")
    case True
    show ?thesis
    proof (cases "b < 0")
      case bt: True
      with eq True have "digits (nat (- a)) = digits (nat (- b))" by (simp add: number_to_string_def)
      then have "nat (- a) = nat (- b)" by (rule digits_inj)
      with True bt show ?thesis by simp
    next
      case False
      with eq True have "CHR ''-'' # digits (nat (- a)) = digits (nat b)" by (simp add: number_to_string_def)
      then have "hd (digits (nat b)) = CHR ''-''" by (metis list.sel(1))
      with hd show ?thesis by simp
    qed
  next
    case False
    show ?thesis
    proof (cases "b < 0")
      case True
      with eq False have "digits (nat a) = CHR ''-'' # digits (nat (- b))" by (simp add: number_to_string_def)
      then have "hd (digits (nat a)) = CHR ''-''" by (metis list.sel(1))
      with hd show ?thesis by simp
    next
      case bf: False
      with eq False have "digits (nat a) = digits (nat b)" by (simp add: number_to_string_def)
      then have "nat a = nat b" by (rule digits_inj)
      with False bf show ?thesis by simp
    qed
  qed
qed

lemma newSessionId_inj: "newSessionId a = newSessionId b \<longleftrightarrow> a = b"
  by (auto simp: newSessionId_def dest: number_to_string_inj)

lemma newSessionId_nonempty: "newSessionId a \<noteq> []"
  by (simp add: newSessionId_def)

lemma newSessionId_100: "newSessionId 100 = ''session_100''"
  by code_simp

lemma newSessionId_300: "newSessionId 300 = ''session_300''"
  by code_simp

subsection \<open>Sending with nothing to send\<close>

text \<open>
  C5.  When the trimmed input is empty (the empty string, or white space only),
  \<open>sendMessage\<close> returns the state it was given: the thread, the busy flag and the
  awaited requests are what they were, so nothing is appended and no request is issued.
\<close>

theorem sendMessage_blank_noop:
  "(trim (input s) = [] \<longrightarrow> sendMessage now s = s)
   \<and> ((\<forall>c \<in> set (input s). is_white_space c) \<longrightarrow> sendMessage now s = s)"
  by (simp add: sendMessage_def trim_empty_iff)

theorem sendMessage_blank_noop_witness:
  "trim (input (idle_thread\<lparr>input := []\<rparr>)) = []
   \<and> sendMessage 200 (idle_thread\<lparr>input := []\<rparr>) = idle_thread\<lparr>input := []\<rparr>
   \<and> list_all is_white_space (input (idle_thread\<lparr>input := ''   ''\<rparr>))
   \<and> sendMessage 200 (idle_thread\<lparr>input := ''   ''\<rparr>) = idle_thread\<lparr>input := ''   ''\<rparr>"
proof -
  have a: "trim (input (idle_thread\<lparr>input := []\<rparr>)) = []"
    by (simp add: trim_def)
  have b: "\<forall>c \<in> set (input (idle_thread\<lparr>input := ''   ''\<rparr>)). is_white_space c"
    by (simp add: is_white_space_def)
  from b have c: "list_all is_white_space (input (idle_thread\<lparr>input := ''   ''\<rparr>))"
    by (simp only: list_all_iff)
  from a b c sendMessage_blank_noop [of "idle_thread\<lparr>input := []\<rparr>" 200]
    sendMessage_blank_noop [of "idle_thread\<lparr>input := ''   ''\<rparr>" 200]
  show ?thesis by blast
qed

subsection \<open>Declining the confirmation\<close>

text \<open>
  C10.  When the user declines the confirmation, \<open>clearChat\<close> returns the state it was
  given: no deletion request joins the awaited requests, and the thread, the session
  identifier and the storage slot are what they were.
\<close>

theorem clearChat_declined_noop:
  "clearChat False s = s \<and> dispatch (ClickClear False) s = s"
  by (simp add: clearChat_def)

theorem clearChat_declined_noop_witness:
  "clearChat False busy_thread = busy_thread \<and> dispatch (ClickClear False) idle_thread = idle_thread"
  using clearChat_declined_noop [of busy_thread] clearChat_declined_noop [of idle_thread]
  by simp

subsection \<open>History responses without entries\<close>

text \<open>
  C9.  When the history request succeeds and the body has no \<open>history\<close> field, or an
  empty array there, the state after \<open>loadHistory\<close> is the state before: the thread is
  not replaced by an empty one.
\<close>

theorem loadHistory_no_history_keeps_store:
  assumes "get_prop data ''history'' = Inr h"
    and "h = JUndefined \<or> h = JArr []"
  shows "loadHistory_settled (Resolved data) s = s"
  using assms by (auto simp: loadHistory_settled_def hydrated_def)

theorem loadHistory_no_history_keeps_store_witness:
  "get_prop (JObj []) ''history'' = Inr JUndefined
   \<and> loadHistory_settled (Resolved (JObj [])) idle_thread = idle_thread
   \<and> get_prop (JObj [(''history'', JArr [])]) ''history'' = Inr (JArr [])
   \<and> loadHistory_settled (Resolved (JObj [(''history'', JArr [])])) idle_thread = idle_thread"
proof -
  have a: "get_prop (JObj []) ''history'' = Inr JUndefined" by simp
  have b: "get_prop (JObj [(''history'', JArr [])]) ''history'' = Inr (JArr [])" by simp
  from a b
    loadHistory_no_history_keeps_store [OF a, of idle_thread]
    loadHistory_no_history_keeps_store [OF b, of idle_thread]
  show ?thesis by simp
qed

lemma map_entries_nullish:
  assumes "e \<in> set xs" and "nullish e"
  shows "\<exists>err. map_entries xs = Inl err"
  using assms
proof (induction xs)
  case Nil
  then show ?case by simp
next
  case (Cons x xs)
  show ?case
  proof (cases "x = e")
    case True
    with Cons.prems have "history_entry x = Inl TypeError"
      by (auto simp: history_entry_def nullish_def)
    then show ?thesis by simp
  next
    case False
    with Cons obtain err where "map_entries xs = Inl err" by auto
    then show ?thesis by (simp split: sum.splits)
  qed
qed

subsection \<open>Failed hydration\<close>

text \<open>
  C7.  When hydration fails, the state after \<open>loadHistory\<close> is the state before, so the
  thread is untouched and no error entry is appended.  The failures are: the request is
  rejected; the response has no body (\<open>null\<close> or \<open>undefined\<close>); the body could not be
  parsed and is still a string; an entry of the history array is \<open>null\<close>.
\<close>

theorem loadHistory_failure_keeps_store:
  "loadHistory_settled Rejected s = s
   \<and> (nullish data \<longrightarrow> loadHistory_settled (Resolved data) s = s)
   \<and> loadHistory_settled (Resolved (JStr raw)) s = s
   \<and> (get_prop data ''history'' = Inr (JArr xs) \<and> e \<in> set xs \<and> nullish e
        \<longrightarrow> loadHistory_settled (Resolved data) s = s)"
proof -
  have "loadHistory_settled (Resolved data) s = s"
    if "get_prop data ''history'' = Inr (JArr xs)" "e \<in> set xs" "nullish e"
  proof -
    from map_entries_nullish [OF that(2,3)] obtain err where "map_entries xs = Inl err" ..
    with that(1) show ?thesis by (simp add: loadHistory_settled_def hydrated_def)
  qed
  then show ?thesis
    by (auto simp: loadHistory_settled_def hydrated_def nullish_def)
qed

theorem loadHistory_failure_keeps_store_witness:
  "loadHistory_settled Rejected idle_thread = idle_thread
   \<and> nullish JNull
   \<and> loadHistory_settled (Resolved JNull) idle_thread = idle_thread
   \<and> loadHistory_settled (Resolved (JStr ''<html>'')) idle_thread = idle_thread
   \<and> loadHistory_settled (Resolved (JObj [(''history'', JArr [JNull])])) idle_thread = idle_thread"
proof -
  have a: "nullish JNull" by (simp add: nullish_def)
  have b: "get_prop (JObj [(''history'', JArr [JNull])]) ''history'' = Inr (JArr [JNull])
           \<and> JNull \<in> set [JNull] \<and> nullish JNull"
    by (simp add: nullish_def)
  from a b
    loadHistory_failure_keeps_store [of idle_thread JNull "''<html>''" "[JNull]" JNull]
    loadHistory_failure_keeps_store
      [of idle_thread "JObj [(''history'', JArr [JNull])]" "''<html>''" "[JNull]" JNull]
  show ?thesis by blast
qed

subsection \<open>A send that succeeds\<close>





subsection \<open>A send that fails\<close>




subsection \<open>Release of the busy flag\<close>



subsection \<open>Hydration replaces the thread\<close>







subsection \<open>Clearing the conversation\<close>

text \<open>
  C2, as the code has it.  A confirmed \<open>clearChat\<close> issues the deletion request for the
  current session identifier.  When that request succeeds, the thread is emptied, and
  the session identifier and the storage slot hold the fresh identifier
  \<open>session_<clock>\<close>, which the mount effect of a later start reads back and which differs
  from a prior identifier made at another reading of the clock.  When the request fails,
  the state is left as it was: the local clearing is inside the \<open>try\<close>, after the
  \<open>await\<close>.
\<close>

theorem clearChat_clears_after_deletion:
  "pending (clearChat True s) = pending s @ [DeleteReq (sessionId s)]
   \<and> clearChat_settled now (Resolved data) s =
       s\<lparr>messages := [], localStorage := Some (newSessionId now), sessionId := newSessionId now\<rparr>
   \<and> sessionId (mount t (initial (localStorage (clearChat_settled now (Resolved data) s)))) =
       newSessionId now
   \<and> (sessionId s = newSessionId t0 \<and> t0 \<noteq> now
        \<longrightarrow> sessionId (clearChat_settled now (Resolved data) s) \<noteq> sessionId s)
   \<and> clearChat_settled now Rejected s = s"
  by (simp add: clearChat_def clearChat_settled_def mount_def initial_def loadHistory_def
      newSessionId_inj newSessionId_nonempty)

theorem clearChat_clears_after_deletion_witness:
  "sessionId idle_thread = newSessionId 100 \<and> (100 :: int) \<noteq> 300
   \<and> pending (clearChat True idle_thread) = [DeleteReq ''session_100'']
   \<and> clearChat_settled 300 (Resolved JNull) idle_thread =
      \<lparr>messages = [], input = ''ping'', isLoading = False, sessionId = ''session_300'',
       localStorage = Some ''session_300'', pending = []\<rparr>
   \<and> sessionId (mount 500 (initial (Some ''session_300''))) = ''session_300''
   \<and> sessionId (clearChat_settled 300 (Resolved JNull) idle_thread) \<noteq> sessionId idle_thread
   \<and> clearChat_settled 300 Rejected idle_thread = idle_thread"
proof -
  have a: "sessionId idle_thread = newSessionId 100 \<and> (100 :: int) \<noteq> 300"
    by (simp add: idle_thread_def newSessionId_100)
  note inst = clearChat_clears_after_deletion [of idle_thread 300 JNull 500 100]
  from inst have b: "pending (clearChat True idle_thread) = [DeleteReq ''session_100'']"
    by (simp add: idle_thread_def)
  from inst have c: "clearChat_settled 300 (Resolved JNull) idle_thread =
      \<lparr>messages = [], input = ''ping'', isLoading = False, sessionId = ''session_300'',
       localStorage = Some ''session_300'', pending = []\<rparr>"
    by (simp add: newSessionId_300 idle_thread_def)
  from inst have "sessionId (mount 500 (initial (localStorage
      (clearChat_settled 300 (Resolved JNull) idle_thread)))) = newSessionId 300"
    by blast
  with c have d: "sessionId (mount 500 (initial (Some ''session_300''))) = ''session_300''"
    by (simp add: newSessionId_300)
  from inst a have e: "sessionId (clearChat_settled 300 (Resolved JNull) idle_thread) \<noteq> sessionId idle_thread"
    by blast
  from inst have f: "clearChat_settled 300 Rejected idle_thread = idle_thread"
    by blast
  from a b c d e f show ?thesis by blast
qed

text \<open>
  A confirmed clear whose deletion request is rejected leaves the thread, the session
  identifier and the storage slot untouched.
\<close>

theorem clearChat_deletion_failure_counterexample:
  "dispatch (Settle (DeleteReq ''session_100'') Rejected 300)
        (dispatch (ClickClear True) idle_thread) = idle_thread
   \<and> messages idle_thread \<noteq> []
   \<and> localStorage idle_thread = Some ''session_100''"
  by (simp add: clearChat_def clearChat_settled_def idle_thread_def)

subsection \<open>One exchange at a time\<close>

lemma busy_inv_mount: "busy_inv (mount now (initial stored))"
  by (simp add: busy_inv_def mount_def initial_def loadHistory_def sending_def
      split: option.splits)

lemma busy_inv_sendMessage: "busy_inv s \<Longrightarrow> \<not> isLoading s \<Longrightarrow> busy_inv (sendMessage now s)"
  by (simp add: busy_inv_def sendMessage_def sending_def)

lemma sendMessage_settled_fields:
  "isLoading (sendMessage_settled now out s) = False"
  "input (sendMessage_settled now out s) = input s"
  "pending (sendMessage_settled now out s) = pending s"
  by (simp_all add: sendMessage_settled_def Let_def split: sum.splits)

lemma loadHistory_settled_fields:
  "isLoading (loadHistory_settled out s) = isLoading s"
  "input (loadHistory_settled out s) = input s"
  "pending (loadHistory_settled out s) = pending s"
  by (simp_all add: loadHistory_settled_def split: outcome.splits option.splits)

lemma clearChat_settled_fields:
  "isLoading (clearChat_settled now out s) = isLoading s"
  "input (clearChat_settled now out s) = input s"
  "pending (clearChat_settled now out s) = pending s"
  by (simp_all add: clearChat_settled_def split: outcome.splits)

lemma busy_inv_settle:
  assumes "busy_inv s"
  shows "busy_inv (dispatch (Settle req out now) s)"
proof (cases "req \<in> set (pending s)")
  case False
  with assms show ?thesis by simp
next
  case True
  show ?thesis
  proof (cases req)
    case (ChatReq body sid)
    with True have "req \<in> set (sending s)" by (simp add: sending_def)
    then have "length (sending s) > 0" by (cases "sending s") auto
    with assms have one: "length (sending s) = 1"
      by (simp add: busy_inv_def split: if_splits)
    from \<open>req \<in> set (sending s)\<close> one
    have "length (remove1 req (sending s)) = 0"
      by (simp add: length_remove1)
    with True ChatReq show ?thesis
      by (simp add: busy_inv_def sending_def sendMessage_settled_fields filter_remove1)
  next
    case (HistoryReq sid)
    then have "remove1 req (sending s) = sending s"
      by (simp add: sending_def remove1_idem)
    with assms True HistoryReq show ?thesis
      by (simp add: busy_inv_def sending_def loadHistory_settled_fields filter_remove1)
  next
    case (DeleteReq sid)
    then have "remove1 req (sending s) = sending s"
      by (simp add: sending_def remove1_idem)
    with assms True DeleteReq show ?thesis
      by (simp add: busy_inv_def sending_def clearChat_settled_fields filter_remove1)
  qed
qed

lemma busy_inv_dispatch:
  assumes "busy_inv s"
  shows "busy_inv (dispatch e s)"
proof (cases e)
  case (Change v)
  with assms show ?thesis by (auto simp: busy_inv_def input_disabled_def sending_def)
next
  case (KeyPress key shiftKey now)
  with assms show ?thesis
    by (simp add: input_disabled_def handleKeyPress_def busy_inv_sendMessage)
next
  case (ClickSend now)
  with assms show ?thesis
    by (simp add: send_disabled_def busy_inv_sendMessage)
next
  case (ClickClear confirmed)
  with assms show ?thesis by (auto simp: clearChat_def busy_inv_def sending_def)
next
  case (Settle req out now)
  with assms show ?thesis by (simp only: busy_inv_settle)
qed

lemma busy_inv_run: "busy_inv s \<Longrightarrow> busy_inv (run evs s)"
  unfolding run_def
  by (induction evs arbitrary: s) (simp_all add: busy_inv_dispatch)

lemma busy_inv_started: "busy_inv (started stored now evs)"
  by (simp add: started_def busy_inv_run busy_inv_mount)

lemma started_example:
  "started None 100 [Change ''hi'', ClickSend 200] =
     \<lparr>messages = [userMessage 200 ''hi''], input = [], isLoading = True,
      sessionId = ''session_100'', localStorage = Some ''session_100'',
      pending = [ChatReq ''hi'' ''session_100'']\<rparr>"
  by (simp add: started_def run_def mount_def initial_def input_disabled_def send_disabled_def
      sendMessage_def newSessionId_100 trim_def is_white_space_def)

text \<open>
  C1.  In every state the component goes through, at most one chat exchange is awaited,
  and when the busy flag is set a send is a no-op: \<open>sendMessage\<close> returns the state it
  was given (nothing is appended, no request is issued, nothing changes), and so do a
  click on Send, a key pressed in the input field and an edit of the input.  The flag
  gates the send through the view: a send empties the input when it sets the flag, and
  the input field and the Send button are disabled while the flag is set, so the
  guard of \<open>sendMessage\<close> on the trimmed input holds the send back.
\<close>

theorem busy_send_is_noop:
  "length (sending (started stored t0 evs)) \<le> 1
   \<and> (isLoading (started stored t0 evs) \<longrightarrow>
        sendMessage now (started stored t0 evs) = started stored t0 evs
        \<and> dispatch (ClickSend now) (started stored t0 evs) = started stored t0 evs
        \<and> dispatch (KeyPress key shiftKey now) (started stored t0 evs) = started stored t0 evs
        \<and> dispatch (Change v) (started stored t0 evs) = started stored t0 evs)"
proof -
  have inv: "busy_inv (started stored t0 evs)" by (rule busy_inv_started)
  then have "length (sending (started stored t0 evs)) \<le> 1"
    by (simp add: busy_inv_def)
  moreover have "sendMessage now (started stored t0 evs) = started stored t0 evs"
    if "isLoading (started stored t0 evs)"
    using inv that by (simp add: busy_inv_def sendMessage_def trim_def)
  ultimately show ?thesis
    by (simp add: input_disabled_def send_disabled_def)
qed

theorem busy_send_is_noop_witness:
  "isLoading (started None 100 [Change ''hi'', ClickSend 200])
   \<and> sending (started None 100 [Change ''hi'', ClickSend 200]) = [ChatReq ''hi'' ''session_100'']
   \<and> sendMessage 300 (started None 100 [Change ''hi'', ClickSend 200]) =
       started None 100 [Change ''hi'', ClickSend 200]
   \<and> dispatch (ClickSend 300) (started None 100 [Change ''hi'', ClickSend 200]) =
       started None 100 [Change ''hi'', ClickSend 200]
   \<and> dispatch (KeyPress ''Enter'' False 300) (started None 100 [Change ''hi'', ClickSend 200]) =
       started None 100 [Change ''hi'', ClickSend 200]
   \<and> dispatch (Change ''again'') (started None 100 [Change ''hi'', ClickSend 200]) =
       started None 100 [Change ''hi'', ClickSend 200]"
proof -
  have a: "isLoading (started None 100 [Change ''hi'', ClickSend 200])"
    by (simp add: started_example)
  have b: "sending (started None 100 [Change ''hi'', ClickSend 200]) = [ChatReq ''hi'' ''session_100'']"
    by (simp add: started_example sending_def)
  from a b busy_send_is_noop [of None 100 "[Change ''hi'', ClickSend 200]" 300 "''Enter''" False "''again''"]
  show ?thesis by blast
qed

end
